theory Spec2Isabelle
  imports Main
begin

section \<open>The coordination service as the client sees it\<close>

text \<open>
  \<^verbatim>\<open>consul/lock.py\<close> talks to the service through \<^verbatim>\<open>requests.put\<close> and
  \<^verbatim>\<open>requests.get\<close> and reads three things of a response: \<^verbatim>\<open>status_code\<close>,
  \<^verbatim>\<open>content\<close> and \<^verbatim>\<open>json()\<close>. A response carries the three; the decoded body is
  given beside the raw one (decoding is the library's work), \<open>None\<close> when the body is
  not JSON, in which case \<^verbatim>\<open>json()\<close> raises \<^verbatim>\<open>ValueError\<close>.

  A JSON object is the list of its fields. Field values are strings: the service hands
  out session identifiers as opaque strings, and \<^verbatim>\<open>ID\<close> and \<^verbatim>\<open>Session\<close> are the
  only fields the client reads. A body is \<^verbatim>\<open>null\<close>, one object, or an array of objects.

  The program is read as Python 3, which \<^verbatim>\<open>setup.py\<close> declares: \<^verbatim>\<open>content\<close> is a
  \<^verbatim>\<open>bytes\<close> object, a literal such as \<^verbatim>\<open>'false'\<close> is a \<^verbatim>\<open>str\<close>, and \<^verbatim>\<open>==\<close>
  between a \<^verbatim>\<open>bytes\<close> and a \<^verbatim>\<open>str\<close> is \<^verbatim>\<open>False\<close> whatever they hold. (On
  Python 2 the two are one type and \<^verbatim>\<open>==\<close> compares their bytes.)
\<close>

type_synonym fields = "(string \<times> string) list"

datatype json = JNull | JObj fields | JArr "fields list"

record response =
  status_code :: int
  content :: string
  json_body :: "json option"

text \<open>The two string types of Python 3, for the one place where the source compares
  across them: equality is that of the datatype, so \<open>Bytes b = Str s\<close> never holds.\<close>

datatype pystring = Bytes string | Str string

datatype http_method = GET | PUT

text \<open>The \<^verbatim>\<open>data=\<close> argument of a request: absent, \<^verbatim>\<open>json.dumps\<close> of a dictionary
  (kept as the dictionary it encodes), or a string sent as it is.\<close>

datatype payload = NoData | JsonDumps fields | Raw string

record request =
  req_method :: http_method
  req_url :: string
  req_params :: "(string \<times> string option) list"
  req_data :: payload
  req_timeout :: int

datatype thread = Thread nat

datatype event = Sent request | Started thread | Joined thread int

text \<open>
  What the service does is not fixed: the world holds the replies it is going to give, in
  the order the calling thread's requests consume them. \<open>NoReply\<close> is a request that
  \<^verbatim>\<open>requests\<close> gives up on (connection refused, timeout); a service that has stopped
  answering is the empty list. The world also records what the instance did: the
  requests sent, the threads started and joined.
\<close>

datatype reply = Reply response | NoReply

record world =
  replies :: "reply list"
  trace :: "event list"
  spawned :: nat

datatype error =
    LockParameterException string
  | LockAcquireException string
  | RequestException
  | ValueError
  | KeyError string
  | TypeError

definition requests_send :: "request \<Rightarrow> world \<Rightarrow> (error + response) \<times> world" where
  "requests_send rq w =
     (let w1 = w\<lparr>trace := trace w @ [Sent rq]\<rparr>
      in case replies w of
           [] \<Rightarrow> (Inl RequestException, w1)
         | NoReply # rs \<Rightarrow> (Inl RequestException, w1\<lparr>replies := rs\<rparr>)
         | Reply r # rs \<Rightarrow> (Inr r, w1\<lparr>replies := rs\<rparr>))"

definition requests_put ::
  "string \<Rightarrow> (string \<times> string option) list \<Rightarrow> payload \<Rightarrow> int \<Rightarrow> world
     \<Rightarrow> (error + response) \<times> world" where
  "requests_put u ps d t w =
     requests_send \<lparr>req_method = PUT, req_url = u, req_params = ps, req_data = d,
                    req_timeout = t\<rparr> w"

definition requests_get :: "string \<Rightarrow> int \<Rightarrow> world \<Rightarrow> (error + response) \<times> world" where
  "requests_get u t w =
     requests_send \<lparr>req_method = GET, req_url = u, req_params = [], req_data = NoData,
                    req_timeout = t\<rparr> w"

definition response_json :: "response \<Rightarrow> error + json" where
  "response_json r = (case json_body r of None \<Rightarrow> Inl ValueError | Some j \<Rightarrow> Inr j)"

text \<open>\<^verbatim>\<open>body['ID']\<close> on the decoded body of the create response.\<close>

fun json_getitem :: "json \<Rightarrow> string \<Rightarrow> error + string" where
  "json_getitem (JObj fs) k = (case map_of fs k of None \<Rightarrow> Inl (KeyError k) | Some v \<Rightarrow> Inr v)"
| "json_getitem (JArr es) k = Inl TypeError"
| "json_getitem JNull k = Inl TypeError"

text \<open>
  \<^verbatim>\<open>for x in body\<close>: an array yields its objects; a dictionary yields its keys, which
  are strings; \<^verbatim>\<open>None\<close> is not iterable. \<^verbatim>\<open>x['ID']\<close> is a lookup in an object and a
  \<^verbatim>\<open>TypeError\<close> on a string.
\<close>

datatype item = Entry fields | Key string

fun json_iter :: "json \<Rightarrow> error + item list" where
  "json_iter (JArr es) = Inr (map Entry es)"
| "json_iter (JObj fs) = Inr (map (\<lambda>f. Key (fst f)) fs)"
| "json_iter JNull = Inl TypeError"

fun getitem :: "item \<Rightarrow> string \<Rightarrow> error + string" where
  "getitem (Entry fs) k = (case map_of fs k of None \<Rightarrow> Inl (KeyError k) | Some v \<Rightarrow> Inr v)"
| "getitem (Key s) k = Inl TypeError"

section \<open>Class constants\<close>

datatype session_op = Create | Destroy | Renew | Info

fun session_endpoints :: "session_op \<Rightarrow> string" where
  "session_endpoints Create = ''v1/session/create''"
| "session_endpoints Destroy = ''v1/session/destroy''"
| "session_endpoints Renew = ''v1/session/renew''"
| "session_endpoints Info = ''v1/session/info''"

datatype kv_op = Kv | Txn

fun kv_endpoints :: "kv_op \<Rightarrow> string" where
  "kv_endpoints Kv = ''v1/kv''"
| "kv_endpoints Txn = ''v1/txn''"

definition session_create_payload :: fields where
  "session_create_payload = [(''Name'', ''lock''), (''Behavior'', ''delete''), (''TTL'', ''15s'')]"

definition sleep_duration :: int where
  "sleep_duration = 2"

definition join_timeout :: int where
  "join_timeout = 2 * sleep_duration"

definition requests_timeout :: int where
  "requests_timeout = 1"

section \<open>The lock instance\<close>

text \<open>
  The fields of a \<^verbatim>\<open>ConsulLock\<close>, and below its methods, under the source's names
  without their leading underscores (\<open>init\<close>, \<open>enter\<close> and \<open>exit\<close> for
  \<^verbatim>\<open>__init__\<close>, \<^verbatim>\<open>__enter__\<close> and \<^verbatim>\<open>__exit__\<close>). A method takes the instance
  and the world and returns its result, or the exception it raises, with the instance and
  the world as it leaves them. The semaphore is left out: it serialises callers that
  share an instance, and one caller is modelled, for which \<^verbatim>\<open>with self._semaphore\<close> is
  the body it guards. The heartbeat thread is the handle the instance keeps and the flag
  it polls; its renew requests run beside the caller and take no reply from the world.
\<close>

record ConsulLock =
  consul_base_path :: string
  session_id :: "string option"
  heartbeating :: bool
  heartbeat_thread :: "thread option"
  lock_key :: string
  lock_value :: string

text \<open>\<^verbatim>\<open>"{}:{}".format(consul_host, consul_port)\<close> with an integer port.\<close>

definition digit_char :: "nat \<Rightarrow> char" where
  "digit_char d = ''0123456789'' ! d"

function str_nat :: "nat \<Rightarrow> string" where
  "str_nat n = (if n < 10 then [digit_char n] else str_nat (n div 10) @ [digit_char (n mod 10)])"
  by pat_completeness auto
termination
  by (relation "measure id") auto

declare str_nat.simps [simp del]

definition str_int :: "int \<Rightarrow> string" where
  "str_int i = (if i < 0 then CHR ''-'' # str_nat (nat (- i)) else str_nat (nat i))"

definition init ::
  "string \<Rightarrow> int \<Rightarrow> string option \<Rightarrow> string option \<Rightarrow> world \<Rightarrow> (error + ConsulLock) \<times> world" where
  "init consul_host consul_port key val w =
     (case (key, val) of
        (Some k, Some v) \<Rightarrow>
          (Inr \<lparr>consul_base_path = consul_host @ '':'' @ str_int consul_port,
                session_id = None, heartbeating = False, heartbeat_thread = None,
                lock_key = k, lock_value = v\<rparr>, w)
      | _ \<Rightarrow> (Inl (LockParameterException ''lock_key and lock_value are required parameters''), w))"

text \<open>\<^verbatim>\<open>'/'.join(parts)\<close> raises \<^verbatim>\<open>TypeError\<close> on an item that is not a string; the
  only such item an instance can pass is a session identifier that is \<^verbatim>\<open>None\<close>.\<close>

fun str_items :: "string option list \<Rightarrow> error + string list" where
  "str_items [] = Inr []"
| "str_items (None # xs) = Inl TypeError"
| "str_items (Some x # xs) = (case str_items xs of Inl e \<Rightarrow> Inl e | Inr ys \<Rightarrow> Inr (x # ys))"

fun join :: "string \<Rightarrow> string list \<Rightarrow> string" where
  "join sep [] = []"
| "join sep [x] = x"
| "join sep (x # y # ys) = x @ sep @ join sep (y # ys)"

definition endpoint :: "ConsulLock \<Rightarrow> string option list \<Rightarrow> error + string" where
  "endpoint self segments =
     (case str_items (Some (consul_base_path self) # segments) of
        Inl e \<Rightarrow> Inl e
      | Inr parts \<Rightarrow> Inr (join ''/'' parts))"

section \<open>Heartbeat worker\<close>

definition stop_heartbeat :: "ConsulLock \<Rightarrow> world \<Rightarrow> ConsulLock \<times> world" where
  "stop_heartbeat self w =
     (let self1 = self\<lparr>heartbeating := False\<rparr>
      in case heartbeat_thread self1 of
           None \<Rightarrow> (self1, w)
         | Some t \<Rightarrow> (self1\<lparr>heartbeat_thread := None\<rparr>,
                      w\<lparr>trace := trace w @ [Joined t join_timeout]\<rparr>))"

definition start_heartbeat :: "ConsulLock \<Rightarrow> world \<Rightarrow> ConsulLock \<times> world" where
  "start_heartbeat self w =
     (case stop_heartbeat self w of
        (self1, w1) \<Rightarrow>
          (let self2 = self1\<lparr>heartbeating := True\<rparr>;
               t = Thread (spawned w1);
               self3 = self2\<lparr>heartbeat_thread := Some t\<rparr>
           in (self3, w1\<lparr>trace := trace w1 @ [Started t], spawned := Suc (spawned w1)\<rparr>)))"

section \<open>Session controller\<close>

text \<open>The loop of \<^verbatim>\<open>_acquire_session\<close> and \<^verbatim>\<open>session_is_active\<close> over the sessions
  returned: \<open>True\<close> at the first one whose \<^verbatim>\<open>ID\<close> is the cached identifier.\<close>

fun find_session :: "string \<Rightarrow> item list \<Rightarrow> error + bool" where
  "find_session sid [] = Inr False"
| "find_session sid (session # rest) =
     (case getitem session ''ID'' of
        Inl e \<Rightarrow> Inl e
      | Inr i \<Rightarrow> if i = sid then Inr True else find_session sid rest)"

function acquire_session :: "ConsulLock \<Rightarrow> world \<Rightarrow> (error + string) \<times> ConsulLock \<times> world" where
  "acquire_session self w =
     (case session_id self of
        None \<Rightarrow>
          (case endpoint self [Some (session_endpoints Create)] of
             Inl e \<Rightarrow> (Inl e, self, w)
           | Inr ep \<Rightarrow>
               (case requests_put ep [] (JsonDumps session_create_payload) requests_timeout w of
                  (Inl e, w1) \<Rightarrow> (Inl e, self, w1)
                | (Inr response, w1) \<Rightarrow>
                    (case response_json response of
                       Inl e \<Rightarrow> (Inl e, self, w1)
                     | Inr body \<Rightarrow>
                         (case json_getitem body ''ID'' of
                            Inl e \<Rightarrow> (Inl e, self, w1)
                          | Inr sid \<Rightarrow>
                              (case start_heartbeat (self\<lparr>session_id := Some sid\<rparr>) w1 of
                                 (self2, w2) \<Rightarrow> (Inr sid, self2, w2))))))
      | Some sid \<Rightarrow>
          (case endpoint self [Some (session_endpoints Info), Some sid] of
             Inl e \<Rightarrow> (Inl e, self, w)
           | Inr ep \<Rightarrow>
               (case requests_get ep requests_timeout w of
                  (Inl e, w1) \<Rightarrow> (Inl e, self, w1)
                | (Inr sessions, w1) \<Rightarrow>
                    if status_code sessions \<noteq> 200
                    then acquire_session (self\<lparr>session_id := None\<rparr>) w1
                    else (case response_json sessions of
                            Inl e \<Rightarrow> (Inl e, self, w1)
                          | Inr body \<Rightarrow>
                              (case json_iter body of
                                 Inl e \<Rightarrow> (Inl e, self, w1)
                               | Inr items \<Rightarrow>
                                   (case find_session sid items of
                                      Inl e \<Rightarrow> (Inl e, self, w1)
                                    | Inr True \<Rightarrow> (Inr sid, self, w1)
                                    | Inr False \<Rightarrow>
                                        acquire_session (self\<lparr>session_id := None\<rparr>) w1))))))"
  by pat_completeness auto
termination
  by (relation "measure (\<lambda>(self, w). if session_id self = None then 0 else 1)") auto

declare acquire_session.simps [simp del]

text \<open>
  \<^verbatim>\<open>_acquire_session\<close> once more, with a bound on the call stack: \<open>depth\<close> is the
  number of frames of \<^verbatim>\<open>_acquire_session\<close> that may be open at once, and \<open>None\<close>
  is a call that would need one more.
\<close>

fun acquire_session_bounded ::
  "nat \<Rightarrow> ConsulLock \<Rightarrow> world \<Rightarrow> ((error + string) \<times> ConsulLock \<times> world) option" where
  "acquire_session_bounded 0 self w = None"
| "acquire_session_bounded (Suc depth) self w =
     (case session_id self of
        None \<Rightarrow>
          (case endpoint self [Some (session_endpoints Create)] of
             Inl e \<Rightarrow> Some (Inl e, self, w)
           | Inr ep \<Rightarrow>
               (case requests_put ep [] (JsonDumps session_create_payload) requests_timeout w of
                  (Inl e, w1) \<Rightarrow> Some (Inl e, self, w1)
                | (Inr response, w1) \<Rightarrow>
                    (case response_json response of
                       Inl e \<Rightarrow> Some (Inl e, self, w1)
                     | Inr body \<Rightarrow>
                         (case json_getitem body ''ID'' of
                            Inl e \<Rightarrow> Some (Inl e, self, w1)
                          | Inr sid \<Rightarrow>
                              (case start_heartbeat (self\<lparr>session_id := Some sid\<rparr>) w1 of
                                 (self2, w2) \<Rightarrow> Some (Inr sid, self2, w2))))))
      | Some sid \<Rightarrow>
          (case endpoint self [Some (session_endpoints Info), Some sid] of
             Inl e \<Rightarrow> Some (Inl e, self, w)
           | Inr ep \<Rightarrow>
               (case requests_get ep requests_timeout w of
                  (Inl e, w1) \<Rightarrow> Some (Inl e, self, w1)
                | (Inr sessions, w1) \<Rightarrow>
                    if status_code sessions \<noteq> 200
                    then acquire_session_bounded depth (self\<lparr>session_id := None\<rparr>) w1
                    else (case response_json sessions of
                            Inl e \<Rightarrow> Some (Inl e, self, w1)
                          | Inr body \<Rightarrow>
                              (case json_iter body of
                                 Inl e \<Rightarrow> Some (Inl e, self, w1)
                               | Inr items \<Rightarrow>
                                   (case find_session sid items of
                                      Inl e \<Rightarrow> Some (Inl e, self, w1)
                                    | Inr True \<Rightarrow> Some (Inr sid, self, w1)
                                    | Inr False \<Rightarrow>
                                        acquire_session_bounded depth
                                          (self\<lparr>session_id := None\<rparr>) w1))))))"

definition session_is_active :: "ConsulLock \<Rightarrow> world \<Rightarrow> (error + bool) \<times> ConsulLock \<times> world" where
  "session_is_active self w =
     (case session_id self of
        None \<Rightarrow> (Inr False, self, w)
      | Some sid \<Rightarrow>
          (case endpoint self [Some (session_endpoints Info), Some sid] of
             Inl e \<Rightarrow> (Inl e, self, w)
           | Inr ep \<Rightarrow>
               (case requests_get ep requests_timeout w of
                  (Inl e, w1) \<Rightarrow> (Inl e, self, w1)
                | (Inr sessions, w1) \<Rightarrow>
                    if status_code sessions \<noteq> 200 then (Inr False, self, w1)
                    else (case response_json sessions of
                            Inl e \<Rightarrow> (Inl e, self, w1)
                          | Inr body \<Rightarrow>
                              (case json_iter body of
                                 Inl e \<Rightarrow> (Inl e, self, w1)
                               | Inr items \<Rightarrow>
                                   (case find_session sid items of
                                      Inl e \<Rightarrow> (Inl e, self, w1)
                                    | Inr b \<Rightarrow> (Inr b, self, w1)))))))"

definition release_session ::
  "ConsulLock \<Rightarrow> world \<Rightarrow> (error + string option) \<times> ConsulLock \<times> world" where
  "release_session self w =
     (case endpoint self [Some (session_endpoints Destroy), session_id self] of
        Inl e \<Rightarrow> (Inl e, self, w)
      | Inr ep \<Rightarrow>
          (case requests_put ep [] NoData requests_timeout w of
             (Inl e, w1) \<Rightarrow> (Inl e, self, w1)
           | (Inr response, w1) \<Rightarrow>
               (case stop_heartbeat (self\<lparr>session_id := None\<rparr>) w1 of
                  (self2, w2) \<Rightarrow> (Inr (session_id self2), self2, w2))))"

section \<open>Lock acquirer\<close>

text \<open>The loop of \<^verbatim>\<open>_lock\<close> over the entries the re-read returns: at the first entry
  whose \<^verbatim>\<open>Session\<close> is not the cached identifier the session is released and the
  acquisition fails.\<close>

fun check_entries :: "item list \<Rightarrow> ConsulLock \<Rightarrow> world \<Rightarrow> (error + unit) \<times> ConsulLock \<times> world" where
  "check_entries [] self w = (Inr (), self, w)"
| "check_entries (lck # rest) self w =
     (case getitem lck ''Session'' of
        Inl e \<Rightarrow> (Inl e, self, w)
      | Inr bound \<Rightarrow>
          if Some bound \<noteq> session_id self
          then (case release_session self w of
                  (Inl e, self1, w1) \<Rightarrow> (Inl e, self1, w1)
                | (Inr r, self1, w1) \<Rightarrow>
                    (Inl (LockAcquireException ''Failed to acquire lock''), self1, w1))
          else check_entries rest self w)"

definition lock :: "ConsulLock \<Rightarrow> world \<Rightarrow> (error + unit) \<times> ConsulLock \<times> world" where
  "lock self w =
     (let lock_failure_response = Str ''false'';
          key_success_status_code = 200
      in case endpoint self [Some (kv_endpoints Kv), Some (lock_key self)] of
           Inl e \<Rightarrow> (Inl e, self, w)
         | Inr ep \<Rightarrow>
             (case requests_put ep [(''acquire'', session_id self)] (Raw (lock_value self))
                     requests_timeout w of
                (Inl e, w1) \<Rightarrow> (Inl e, self, w1)
              | (Inr acquire_response, w1) \<Rightarrow>
                  if Bytes (content acquire_response) = lock_failure_response
                  then (case release_session self w1 of
                          (Inl e, self1, w2) \<Rightarrow> (Inl e, self1, w2)
                        | (Inr r, self1, w2) \<Rightarrow>
                            (Inl (LockAcquireException ''Failed to acquire lock''), self1, w2))
                  else
                    (case requests_get ep requests_timeout w1 of
                       (Inl e, w2) \<Rightarrow> (Inl e, self, w2)
                     | (Inr response, w2) \<Rightarrow>
                         if status_code response = key_success_status_code
                         then (case response_json response of
                                 Inl e \<Rightarrow> (Inl e, self, w2)
                               | Inr response_list \<Rightarrow>
                                   (case json_iter response_list of
                                      Inl e \<Rightarrow> (Inl e, self, w2)
                                    | Inr items \<Rightarrow> check_entries items self w2))
                         else (case release_session self w2 of
                                 (Inl e, self1, w3) \<Rightarrow> (Inl e, self1, w3)
                               | (Inr r, self1, w3) \<Rightarrow>
                                   (Inl (LockAcquireException ''Could not get the lock key''),
                                    self1, w3)))))"

section \<open>Lifecycle guard\<close>

definition enter :: "ConsulLock \<Rightarrow> world \<Rightarrow> (error + unit) \<times> ConsulLock \<times> world" where
  "enter self w =
     (case acquire_session self w of
        (Inl e, self1, w1) \<Rightarrow> (Inl e, self1, w1)
      | (Inr sid, self1, w1) \<Rightarrow>
          (case lock self1 w1 of
             (Inl e, self2, w2) \<Rightarrow> (Inl e, self2, w2)
           | (Inr u, self2, w2) \<Rightarrow> (Inr (), self2, w2)))"

definition exit :: "ConsulLock \<Rightarrow> world \<Rightarrow> (error + unit) \<times> ConsulLock \<times> world" where
  "exit self w =
     (case release_session self w of
        (Inl e, self1, w1) \<Rightarrow> (Inl e, self1, w1)
      | (Inr r, self1, w1) \<Rightarrow> (Inr (), self1, w1))"

section \<open>Requests and states the properties name\<close>

text \<open>
  The requests of the service's HTTP surface that the session controller sends, written
  out once so that a property can say which request went out, and the state of an
  instance that holds nothing: no cached identifier, the heartbeat flag cleared, no
  thread handle (\<open>Idle\<close>).
\<close>

definition destroy_request :: "ConsulLock \<Rightarrow> string \<Rightarrow> request" where
  "destroy_request self sid =
     \<lparr>req_method = PUT,
      req_url = join ''/'' [consul_base_path self, ''v1/session/destroy'', sid],
      req_params = [], req_data = NoData, req_timeout = 1\<rparr>"

definition info_request :: "ConsulLock \<Rightarrow> string \<Rightarrow> request" where
  "info_request self sid =
     \<lparr>req_method = GET,
      req_url = join ''/'' [consul_base_path self, ''v1/session/info'', sid],
      req_params = [], req_data = NoData, req_timeout = 1\<rparr>"

definition create_request :: "ConsulLock \<Rightarrow> request" where
  "create_request self =
     \<lparr>req_method = PUT,
      req_url = join ''/'' [consul_base_path self, ''v1/session/create''],
      req_params = [],
      req_data = JsonDumps [(''Name'', ''lock''), (''Behavior'', ''delete''), (''TTL'', ''15s'')],
      req_timeout = 1\<rparr>"

definition kv_url :: "ConsulLock \<Rightarrow> string" where
  "kv_url self = join ''/'' [consul_base_path self, ''v1/kv'', lock_key self]"

definition acquire_request :: "ConsulLock \<Rightarrow> request" where
  "acquire_request self =
     \<lparr>req_method = PUT, req_url = kv_url self, req_params = [(''acquire'', session_id self)],
      req_data = Raw (lock_value self), req_timeout = 1\<rparr>"

definition read_request :: "ConsulLock \<Rightarrow> request" where
  "read_request self =
     \<lparr>req_method = GET, req_url = kv_url self, req_params = [], req_data = NoData,
      req_timeout = 1\<rparr>"

text \<open>The joins \<^verbatim>\<open>_stop_heartbeat\<close> performs: one when a thread handle is kept.\<close>

definition joins :: "ConsulLock \<Rightarrow> event list" where
  "joins self = (case heartbeat_thread self of None \<Rightarrow> [] | Some t \<Rightarrow> [Joined t join_timeout])"

definition idle :: "ConsulLock \<Rightarrow> ConsulLock" where
  "idle self = self\<lparr>session_id := None, heartbeating := False, heartbeat_thread := None\<rparr>"

text \<open>A concrete instance, idle and holding session \<^verbatim>\<open>s1\<close>, and a world that starts
  with the given replies, for evaluating the operations on concrete inputs.\<close>

definition example_idle :: ConsulLock where
  "example_idle =
     \<lparr>consul_base_path = ''http://localhost:8500'', session_id = None, heartbeating = False,
      heartbeat_thread = None, lock_key = ''jobs/nightly'', lock_value = ''worker-1''\<rparr>"

definition example_held :: ConsulLock where
  "example_held =
     example_idle\<lparr>session_id := Some ''s1'', heartbeating := True,
                  heartbeat_thread := Some (Thread 0)\<rparr>"

definition service :: "reply list \<Rightarrow> world" where
  "service rs = \<lparr>replies = rs, trace = [], spawned = 0\<rparr>"

definition answer :: "int \<Rightarrow> string \<Rightarrow> json option \<Rightarrow> reply" where
  "answer st c j = Reply \<lparr>status_code = st, content = c, json_body = j\<rparr>"

section \<open>Endpoints, requests and the heartbeat flag\<close>

lemma endpoint_one:
  "endpoint self [Some a] = Inr (join ''/'' [consul_base_path self, a])"
  by (simp add: endpoint_def)

lemma endpoint_two:
  "endpoint self [Some a, Some b] = Inr (join ''/'' [consul_base_path self, a, b])"
  by (simp add: endpoint_def)

lemma endpoint_none:
  "endpoint self [Some a, None] = Inl TypeError"
  by (simp add: endpoint_def)

lemma str_items_Inl: "str_items xs = Inl e \<Longrightarrow> e = TypeError"
  by (induction xs rule: str_items.induct) (auto split: sum.splits)

lemma endpoint_Inl: "endpoint self segments = Inl e \<Longrightarrow> e = TypeError"
  by (auto simp: endpoint_def split: sum.splits dest: str_items_Inl)

lemma requests_send_reply:
  "replies w = Reply r # rs \<Longrightarrow>
   requests_send rq w = (Inr r, w\<lparr>trace := trace w @ [Sent rq], replies := rs\<rparr>)"
  by (simp add: requests_send_def)

lemma requests_send_Inr:
  "requests_send rq w = (Inr r, w1) \<Longrightarrow>
   \<exists>rs. replies w = Reply r # rs \<and> w1 = w\<lparr>trace := trace w @ [Sent rq], replies := rs\<rparr>"
  by (auto simp: requests_send_def Let_def split: list.splits reply.splits)

lemma requests_send_Inl:
  "requests_send rq w = (Inl e, w1) \<Longrightarrow> e = RequestException"
  by (auto simp: requests_send_def Let_def split: list.splits reply.splits)

lemma stop_heartbeat_state:
  "fst (stop_heartbeat self w) = self\<lparr>heartbeating := False, heartbeat_thread := None\<rparr>"
  by (cases "heartbeat_thread self") (simp_all add: stop_heartbeat_def Let_def)

lemma stop_heartbeat_trace:
  "\<exists>evs. trace (snd (stop_heartbeat self w)) = trace w @ evs \<and>
         replies (snd (stop_heartbeat self w)) = replies w"
  by (cases "heartbeat_thread self") (simp_all add: stop_heartbeat_def Let_def)

lemma release_session_Inr:
  assumes "release_session self w = (Inr r, self', w')"
  shows "\<exists>sid. session_id self = Some sid \<and> r = None \<and> self' = idle self \<and>
               Sent (destroy_request self sid) \<in> set (trace w')"
proof (cases "session_id self")
  case None
  with assms show ?thesis by (simp add: release_session_def endpoint_none)
next
  case (Some sid)
  let ?rq = "destroy_request self sid"
  from assms Some obtain resp w1 where
    put: "requests_send ?rq w = (Inr resp, w1)" and
    stop: "stop_heartbeat (self\<lparr>session_id := None\<rparr>) w1 = (self', w')" and
    r: "r = session_id self'"
    by (auto simp: release_session_def endpoint_two requests_put_def destroy_request_def
                   requests_timeout_def
             split: prod.splits sum.splits)
  from stop have s': "self' = idle self"
    using stop_heartbeat_state [of "self\<lparr>session_id := None\<rparr>" w1] by (simp add: idle_def)
  from put have "trace w1 = trace w @ [Sent ?rq]"
    by (auto dest: requests_send_Inr)
  moreover from stop obtain evs where "trace w' = trace w1 @ evs"
    using stop_heartbeat_trace [of "self\<lparr>session_id := None\<rparr>" w1] by auto
  ultimately have "Sent ?rq \<in> set (trace w')" by simp
  with Some s' r show ?thesis by (simp add: idle_def)
qed

lemma release_session_Inl:
  "release_session self w = (Inl e, self', w') \<Longrightarrow>
   self' = self \<and> (e = TypeError \<or> e = RequestException)"
  by (auto simp: release_session_def requests_put_def
           split: prod.splits sum.splits dest: requests_send_Inl endpoint_Inl)

lemma release_session_reply:
  assumes "session_id self = Some sid" "replies w = Reply d # rs"
  shows "\<exists>w'. release_session self w = (Inr None, idle self, w') \<and> replies w' = rs \<and>
              Sent (destroy_request self sid) \<in> set (trace w')"
proof -
  let ?rq = "destroy_request self sid"
  let ?w1 = "w\<lparr>trace := trace w @ [Sent ?rq], replies := rs\<rparr>"
  obtain self2 w2 where stop: "stop_heartbeat (self\<lparr>session_id := None\<rparr>) ?w1 = (self2, w2)"
    by (cases "stop_heartbeat (self\<lparr>session_id := None\<rparr>) ?w1")
  have rel: "release_session self w = (Inr (session_id self2), self2, w2)"
    using assms stop
    by (simp add: release_session_def endpoint_two requests_put_def destroy_request_def
                  requests_timeout_def requests_send_reply)
  from release_session_Inr [OF rel] assms(1)
  have "self2 = idle self" "session_id self2 = None"
       "Sent ?rq \<in> set (trace w2)" by (auto simp: idle_def)
  moreover have "replies w2 = rs"
    using stop stop_heartbeat_trace [of "self\<lparr>session_id := None\<rparr>" ?w1] by simp
  ultimately show ?thesis using rel by simp
qed

section \<open>The lock acquirer's paths\<close>

lemma getitem_Inl:
  "getitem l k = Inl e \<Longrightarrow> e = KeyError k \<or> e = TypeError"
  by (cases l) (auto split: option.splits)

lemma check_entries_Inr:
  "check_entries items self w = (Inr u, self', w') \<Longrightarrow>
   self' = self \<and> w' = w \<and>
   (\<forall>l \<in> set items. \<exists>b. getitem l ''Session'' = Inr b \<and> session_id self = Some b)"
  by (induction items) (auto split: sum.splits if_splits prod.splits)

lemma check_entries_LockAcquireException:
  "check_entries items self w = (Inl (LockAcquireException m), self', w') \<Longrightarrow>
   \<exists>r. release_session self w = (Inr r, self', w')"
proof (induction items)
  case Nil
  then show ?case by simp
next
  case (Cons l items)
  then show ?case
    by (auto split: sum.splits if_splits prod.splits
             dest: getitem_Inl release_session_Inl)
qed

lemma check_entries_mismatch:
  assumes "\<forall>l \<in> set items. \<exists>b. getitem l ''Session'' = Inr b"
    and "\<exists>l \<in> set items. getitem l ''Session'' \<noteq> Inr sid"
    and "session_id self = Some sid"
    and "release_session self w = (Inr r, self1, w1)"
  shows "check_entries items self w =
           (Inl (LockAcquireException ''Failed to acquire lock''), self1, w1)"
  using assms(1,2)
proof (induction items)
  case Nil
  then show ?case by simp
next
  case (Cons l items)
  from Cons.prems(1) obtain b where b: "getitem l ''Session'' = Inr b" by auto
  show ?case
  proof (cases "b = sid")
    case True
    with b Cons.prems have "\<exists>l \<in> set items. getitem l ''Session'' \<noteq> Inr sid" by auto
    with Cons.IH Cons.prems(1) have
      "check_entries items self w =
         (Inl (LockAcquireException ''Failed to acquire lock''), self1, w1)" by simp
    with b True assms(3) show ?thesis by simp
  next
    case False
    with b assms(3,4) show ?thesis by simp
  qed
qed

lemma response_json_Inl: "response_json r = Inl e \<Longrightarrow> e = ValueError"
  by (auto simp: response_json_def split: option.splits)

lemma json_iter_Inl: "json_iter j = Inl e \<Longrightarrow> e = TypeError"
  by (cases j) auto

lemma requests_send_trace:
  "requests_send rq w = (res, w1) \<Longrightarrow> trace w1 = trace w @ [Sent rq]"
  by (auto simp: requests_send_def Let_def split: list.splits reply.splits)

text \<open>\<^verbatim>\<open>_lock\<close> as it runs: the test of the write's body is a \<^verbatim>\<open>bytes\<close> against a
  \<^verbatim>\<open>str\<close>, so its branch is never taken and the re-read always follows the write.\<close>

lemma bytes_eq_str: "(Bytes b = Str s) = False"
  by simp

lemma lock_unfold:
  "lock self w =
     (case requests_send (acquire_request self) w of
        (Inl e, w1) \<Rightarrow> (Inl e, self, w1)
      | (Inr a, w1) \<Rightarrow>
          (case requests_send (read_request self) w1 of
             (Inl e, w2) \<Rightarrow> (Inl e, self, w2)
           | (Inr response, w2) \<Rightarrow>
               if status_code response = 200
               then (case response_json response of
                       Inl e \<Rightarrow> (Inl e, self, w2)
                     | Inr response_list \<Rightarrow>
                         (case json_iter response_list of
                            Inl e \<Rightarrow> (Inl e, self, w2)
                          | Inr items \<Rightarrow> check_entries items self w2))
               else (case release_session self w2 of
                       (Inl e, self1, w3) \<Rightarrow> (Inl e, self1, w3)
                     | (Inr r, self1, w3) \<Rightarrow>
                         (Inl (LockAcquireException ''Could not get the lock key''),
                          self1, w3))))"
  unfolding lock_def Let_def endpoint_two sum.case requests_put_def requests_get_def
    kv_endpoints.simps bytes_eq_str if_False
    acquire_request_def read_request_def kv_url_def requests_timeout_def
  by (rule refl)

lemma lock_LockAcquireException:
  assumes "lock self w = (Inl (LockAcquireException m), self', w')"
  shows "\<exists>w1 r. release_session self w1 = (Inr r, self', w')"
proof -
  obtain pr w1 where put: "requests_send (acquire_request self) w = (pr, w1)"
    by (cases "requests_send (acquire_request self) w")
  show ?thesis
  proof (cases pr)
    case (Inl e)
    with put assms have "e = LockAcquireException m"
      by (simp add: lock_unfold)
    moreover from put Inl have "e = RequestException"
      by (auto dest: requests_send_Inl)
    ultimately show ?thesis by simp
  next
    case a: (Inr a)
    obtain gr w2 where get: "requests_send (read_request self) w1 = (gr, w2)"
      by (cases "requests_send (read_request self) w1")
    show ?thesis
    proof (cases gr)
      case (Inl e)
      with put a get assms have "e = LockAcquireException m"
        by (simp add: lock_unfold)
      moreover from get Inl have "e = RequestException"
        by (auto dest: requests_send_Inl)
      ultimately show ?thesis by simp
    next
      case r: (Inr resp)
      show ?thesis
      proof (cases "status_code resp = 200")
        case ok: True
        show ?thesis
        proof (cases "response_json resp")
          case (Inl e)
          with put a get r ok assms have "e = LockAcquireException m"
            by (simp add: lock_unfold)
          with Inl show ?thesis by (auto dest: response_json_Inl)
        next
          case body: (Inr body)
          show ?thesis
          proof (cases "json_iter body")
            case (Inl e)
            with put a get r ok body assms have "e = LockAcquireException m"
              by (simp add: lock_unfold)
            with Inl show ?thesis by (auto dest: json_iter_Inl)
          next
            case (Inr items)
            with put a get r ok body assms have
              "check_entries items self w2 = (Inl (LockAcquireException m), self', w')"
              by (simp add: lock_unfold)
            then show ?thesis
              by (blast dest: check_entries_LockAcquireException)
          qed
        qed
      next
        case False
        with put a get r assms show ?thesis
          by (auto simp: lock_unfold split: prod.splits sum.splits
                   dest: release_session_Inl)
      qed
    qed
  qed
qed

lemma lock_read_failed:
  assumes "session_id self = Some sid" "replies w = Reply a # Reply r # Reply d # rs"
    and "status_code r \<noteq> 200"
  shows "\<exists>w'. lock self w =
                (Inl (LockAcquireException ''Could not get the lock key''), idle self, w') \<and>
              replies w' = rs \<and> Sent (destroy_request self sid) \<in> set (trace w')"
proof -
  let ?w1 = "w\<lparr>trace := trace w @ [Sent (acquire_request self)],
                replies := Reply r # Reply d # rs\<rparr>"
  let ?w2 = "?w1\<lparr>trace := trace ?w1 @ [Sent (read_request self)], replies := Reply d # rs\<rparr>"
  have put: "requests_send (acquire_request self) w = (Inr a, ?w1)"
    using assms(2) by (rule requests_send_reply)
  have get: "requests_send (read_request self) ?w1 = (Inr r, ?w2)"
    by (rule requests_send_reply) simp
  from release_session_reply [OF assms(1), of ?w2 d rs] obtain w' where
    "release_session self ?w2 = (Inr None, idle self, w')" "replies w' = rs"
    "Sent (destroy_request self sid) \<in> set (trace w')" by auto
  with put get assms(3) show ?thesis
    by (simp add: lock_unfold)
qed

lemma lock_read_mismatch:
  assumes "session_id self = Some sid" "replies w = Reply a # Reply r # Reply d # rs"
    and "status_code r = 200"
    and "json_body r = Some body" "json_iter body = Inr items"
    and "\<forall>l \<in> set items. \<exists>b. getitem l ''Session'' = Inr b"
    and "\<exists>l \<in> set items. getitem l ''Session'' \<noteq> Inr sid"
  shows "\<exists>w'. lock self w =
                (Inl (LockAcquireException ''Failed to acquire lock''), idle self, w') \<and>
              replies w' = rs \<and> Sent (destroy_request self sid) \<in> set (trace w')"
proof -
  let ?w1 = "w\<lparr>trace := trace w @ [Sent (acquire_request self)],
                replies := Reply r # Reply d # rs\<rparr>"
  let ?w2 = "?w1\<lparr>trace := trace ?w1 @ [Sent (read_request self)], replies := Reply d # rs\<rparr>"
  have put: "requests_send (acquire_request self) w = (Inr a, ?w1)"
    using assms(2) by (rule requests_send_reply)
  have get: "requests_send (read_request self) ?w1 = (Inr r, ?w2)"
    by (rule requests_send_reply) simp
  from release_session_reply [OF assms(1), of ?w2 d rs] obtain w' where
    rel: "release_session self ?w2 = (Inr None, idle self, w')" and w': "replies w' = rs"
    "Sent (destroy_request self sid) \<in> set (trace w')" by auto
  have "check_entries items self ?w2 =
          (Inl (LockAcquireException ''Failed to acquire lock''), idle self, w')"
    using assms(6,7,1) rel by (rule check_entries_mismatch)
  with put get assms(3,4,5) w' show ?thesis
    by (simp add: lock_unfold response_json_def)
qed

text \<open>The body of the write's answer has no part in what \<^verbatim>\<open>_lock\<close> does.\<close>

lemma lock_ignores_write_body:
  assumes "replies w = Reply a # rs"
  shows "lock self w = lock self (w\<lparr>replies := Reply a' # rs\<rparr>)"
proof -
  let ?w1 = "w\<lparr>trace := trace w @ [Sent (acquire_request self)], replies := rs\<rparr>"
  have "requests_send (acquire_request self) w = (Inr a, ?w1)"
    using assms by (rule requests_send_reply)
  moreover have "requests_send (acquire_request self) (w\<lparr>replies := Reply a' # rs\<rparr>) =
                   (Inr a', ?w1)"
    by (simp add: requests_send_def)
  ultimately show ?thesis
    by (simp add: lock_unfold)
qed

lemma check_entries_match:
  "\<forall>l \<in> set items. \<exists>b. getitem l ''Session'' = Inr b \<and> session_id self = Some b \<Longrightarrow>
   check_entries items self w = (Inr (), self, w)"
  by (induction items) auto

text \<open>When \<^verbatim>\<open>_lock\<close> returns: the write and the re-read were answered, whatever the
  write's body, the re-read with status 200, and no returned entry is bound to anything
  but the cached identifier.\<close>

lemma lock_Inr_iff:
  "lock self w = (Inr u, self', w') \<longleftrightarrow>
   (\<exists>a r rs body items.
      replies w = Reply a # Reply r # rs \<and> status_code r = 200 \<and>
      json_body r = Some body \<and> json_iter body = Inr items \<and>
      (\<forall>l \<in> set items. \<exists>b. getitem l ''Session'' = Inr b \<and> session_id self = Some b) \<and>
      self' = self \<and>
      w' = w\<lparr>trace := trace w @ [Sent (acquire_request self), Sent (read_request self)],
              replies := rs\<rparr>)"
  (is "?L \<longleftrightarrow> ?R")
proof
  assume ?R
  then obtain a r rs body items where
    w: "replies w = Reply a # Reply r # rs" and
    r: "status_code r = 200" "json_body r = Some body" "json_iter body = Inr items" and
    all: "\<forall>l \<in> set items. \<exists>b. getitem l ''Session'' = Inr b \<and> session_id self = Some b" and
    res: "self' = self"
      "w' = w\<lparr>trace := trace w @ [Sent (acquire_request self), Sent (read_request self)],
              replies := rs\<rparr>"
    by blast
  let ?w1 = "w\<lparr>trace := trace w @ [Sent (acquire_request self)], replies := Reply r # rs\<rparr>"
  let ?w2 = "?w1\<lparr>trace := trace ?w1 @ [Sent (read_request self)], replies := rs\<rparr>"
  have put: "requests_send (acquire_request self) w = (Inr a, ?w1)"
    using w by (rule requests_send_reply)
  have get: "requests_send (read_request self) ?w1 = (Inr r, ?w2)"
    by (rule requests_send_reply) simp
  have "check_entries items self ?w2 = (Inr (), self, ?w2)"
    using all by (rule check_entries_match)
  with put get r res show ?L
    by (simp add: lock_unfold response_json_def)
next
  assume L: ?L
  obtain pr w1 where put: "requests_send (acquire_request self) w = (pr, w1)"
    by (cases "requests_send (acquire_request self) w")
  with L obtain a where pr: "pr = Inr a"
    by (cases pr) (auto simp: lock_unfold split: prod.splits sum.splits if_splits)
  obtain gr w2 where get: "requests_send (read_request self) w1 = (gr, w2)"
    by (cases "requests_send (read_request self) w1")
  with L put pr obtain r where gr: "gr = Inr r" and r: "status_code r = 200"
    by (cases gr) (auto simp: lock_unfold split: prod.splits sum.splits if_splits)
  from L put pr get gr r obtain body items where
    body: "json_body r = Some body" "json_iter body = Inr items" and
    chk: "check_entries items self w2 = (Inr u, self', w')"
    by (auto simp: lock_unfold response_json_def split: sum.splits option.splits)
  from put pr obtain rs1 where
    w1: "replies w = Reply a # rs1"
        "w1 = w\<lparr>trace := trace w @ [Sent (acquire_request self)], replies := rs1\<rparr>"
    by (auto dest: requests_send_Inr)
  from get gr obtain rs where
    w2: "replies w1 = Reply r # rs"
        "w2 = w1\<lparr>trace := trace w1 @ [Sent (read_request self)], replies := rs\<rparr>"
    by (auto dest: requests_send_Inr)
  from check_entries_Inr [OF chk] w1 w2 r body show ?R
    by auto
qed

section \<open>The session controller's paths\<close>

lemma stop_heartbeat_eq:
  "stop_heartbeat self w =
     (self\<lparr>heartbeating := False, heartbeat_thread := None\<rparr>,
      w\<lparr>trace := trace w @ joins self\<rparr>)"
  by (cases "heartbeat_thread self") (simp_all add: stop_heartbeat_def Let_def joins_def)

lemma start_heartbeat_eq:
  "start_heartbeat self w =
     (self\<lparr>heartbeating := True, heartbeat_thread := Some (Thread (spawned w))\<rparr>,
      w\<lparr>trace := trace w @ joins self @ [Started (Thread (spawned w))],
        spawned := Suc (spawned w)\<rparr>)"
  by (simp add: start_heartbeat_def stop_heartbeat_eq Let_def)

lemma joins_session_id [simp]: "joins (self\<lparr>session_id := x\<rparr>) = joins self"
  by (simp add: joins_def)

lemma acquire_session_fresh:
  assumes "session_id self = None"
  shows "acquire_session self w =
     (case requests_send (create_request self) w of
        (Inl e, w1) \<Rightarrow> (Inl e, self, w1)
      | (Inr response, w1) \<Rightarrow>
          (case response_json response of
             Inl e \<Rightarrow> (Inl e, self, w1)
           | Inr body \<Rightarrow>
               (case json_getitem body ''ID'' of
                  Inl e \<Rightarrow> (Inl e, self, w1)
                | Inr sid \<Rightarrow>
                    (case start_heartbeat (self\<lparr>session_id := Some sid\<rparr>) w1 of
                       (self2, w2) \<Rightarrow> (Inr sid, self2, w2)))))"
  by (subst acquire_session.simps)
     (simp add: assms endpoint_one requests_put_def create_request_def
                session_create_payload_def requests_timeout_def)

lemma acquire_session_cached:
  assumes "session_id self = Some sid"
  shows "acquire_session self w =
     (case requests_send (info_request self sid) w of
        (Inl e, w1) \<Rightarrow> (Inl e, self, w1)
      | (Inr sessions, w1) \<Rightarrow>
          if status_code sessions \<noteq> 200
          then acquire_session (self\<lparr>session_id := None\<rparr>) w1
          else (case response_json sessions of
                  Inl e \<Rightarrow> (Inl e, self, w1)
                | Inr body \<Rightarrow>
                    (case json_iter body of
                       Inl e \<Rightarrow> (Inl e, self, w1)
                     | Inr items \<Rightarrow>
                         (case find_session sid items of
                            Inl e \<Rightarrow> (Inl e, self, w1)
                          | Inr True \<Rightarrow> (Inr sid, self, w1)
                          | Inr False \<Rightarrow>
                              acquire_session (self\<lparr>session_id := None\<rparr>) w1))))"
  by (subst acquire_session.simps)
     (simp add: assms endpoint_two requests_get_def info_request_def requests_timeout_def)

lemma create_request_cleared [simp]:
  "create_request (self\<lparr>session_id := None\<rparr>) = create_request self"
  by (simp add: create_request_def)

lemma acquire_session_fresh_Inr:
  assumes "session_id self = None" "acquire_session self w = (Inr sid, self', w')"
  shows "\<exists>r rs body.
           replies w = Reply r # rs \<and> json_body r = Some body \<and>
           json_getitem body ''ID'' = Inr sid \<and>
           self' = self\<lparr>session_id := Some sid, heartbeating := True,
                        heartbeat_thread := Some (Thread (spawned w))\<rparr> \<and>
           w' = w\<lparr>trace := trace w @ [Sent (create_request self)] @ joins self @
                               [Started (Thread (spawned w))],
                   replies := rs, spawned := Suc (spawned w)\<rparr>"
proof -
  obtain pr w1 where put: "requests_send (create_request self) w = (pr, w1)"
    by (cases "requests_send (create_request self) w")
  with assms obtain r where pr: "pr = Inr r"
    by (cases pr) (auto simp: acquire_session_fresh)
  from put pr obtain rs where
    w1: "replies w = Reply r # rs"
        "w1 = w\<lparr>trace := trace w @ [Sent (create_request self)], replies := rs\<rparr>"
    by (auto dest: requests_send_Inr)
  from assms put pr obtain body where
    body: "json_body r = Some body" "json_getitem body ''ID'' = Inr sid" and
    hb: "start_heartbeat (self\<lparr>session_id := Some sid\<rparr>) w1 = (self', w')"
    by (auto simp: acquire_session_fresh response_json_def
             split: option.splits sum.splits prod.splits)
  from hb w1 body show ?thesis
    by (auto simp: start_heartbeat_eq)
qed

lemma acquire_session_Inr:
  assumes "acquire_session self w = (Inr sid, self', w')"
  shows "session_id self' = Some sid \<and>
         (self' = self \<or> (heartbeating self' \<and> heartbeat_thread self' \<noteq> None))"
proof (cases "session_id self")
  case None
  from acquire_session_fresh_Inr [OF None assms] show ?thesis by auto
next
  case (Some old)
  have fresh: "session_id self' = Some sid \<and> heartbeating self' \<and> heartbeat_thread self' \<noteq> None"
    if "acquire_session (self\<lparr>session_id := None\<rparr>) w1 = (Inr sid, self', w')" for w1
    using acquire_session_fresh_Inr [OF _ that] by auto
  from assms Some fresh show ?thesis
    by (auto simp: acquire_session_cached [OF Some]
             split: prod.splits sum.splits if_splits bool.splits)
qed

lemma find_session_all:
  "\<forall>l \<in> set items. \<exists>i. getitem l ''ID'' = Inr i \<Longrightarrow>
   find_session sid items = Inr (\<exists>l \<in> set items. getitem l ''ID'' = Inr sid)"
  by (induction items) auto

lemma acquire_session_fresh_outcome:
  assumes "session_id self = None" "acquire_session self w = (res, self', w')"
  shows "\<exists>evs. trace w' = trace w @ [Sent (create_request self)] @ evs \<and>
               (case res of Inl e \<Rightarrow> self' = self
                | Inr new \<Rightarrow> session_id self' = Some new \<and> heartbeating self')"
proof -
  obtain pr w1 where put: "requests_send (create_request self) w = (pr, w1)"
    by (cases "requests_send (create_request self) w")
  then have w1: "trace w1 = trace w @ [Sent (create_request self)]"
    by (rule requests_send_trace)
  show ?thesis
  proof (cases res)
    case (Inl e)
    with assms put w1 show ?thesis
      by (auto simp: acquire_session_fresh start_heartbeat_eq
               split: sum.splits prod.splits)
  next
    case (Inr new)
    with assms(2) have "acquire_session self w = (Inr new, self', w')" by simp
    from acquire_session_fresh_Inr [OF assms(1) this] Inr show ?thesis
      by auto
  qed
qed

lemma acquire_session_bounded_fresh:
  assumes "session_id self = None"
  shows "acquire_session_bounded (Suc depth) self w = Some (acquire_session self w)"
  using assms
  by (subst acquire_session.simps)
     (simp split: sum.splits prod.splits)

lemma acquire_session_bounded_cached:
  assumes "session_id self = Some sid"
  shows "acquire_session_bounded (Suc (Suc depth)) self w = Some (acquire_session self w)"
proof -
  have rec: "acquire_session_bounded (Suc depth) (self\<lparr>session_id := None\<rparr>) w1 =
             Some (acquire_session (self\<lparr>session_id := None\<rparr>) w1)" for w1
    by (rule acquire_session_bounded_fresh) simp
  show ?thesis
    using assms
    by (subst acquire_session.simps [of self w], subst acquire_session_bounded.simps(2))
       (simp add: rec del: acquire_session_bounded.simps
             split: sum.splits prod.splits bool.splits)
qed

lemma session_is_active_cached:
  assumes "session_id self = Some sid"
  shows "session_is_active self w =
     (case requests_send (info_request self sid) w of
        (Inl e, w1) \<Rightarrow> (Inl e, self, w1)
      | (Inr sessions, w1) \<Rightarrow>
          if status_code sessions \<noteq> 200 then (Inr False, self, w1)
          else (case response_json sessions of
                  Inl e \<Rightarrow> (Inl e, self, w1)
                | Inr body \<Rightarrow>
                    (case json_iter body of
                       Inl e \<Rightarrow> (Inl e, self, w1)
                     | Inr items \<Rightarrow>
                         (case find_session sid items of
                            Inl e \<Rightarrow> (Inl e, self, w1)
                          | Inr b \<Rightarrow> (Inr b, self, w1)))))"
  by (simp add: session_is_active_def assms endpoint_two requests_get_def info_request_def
                requests_timeout_def)

lemma session_is_active_frame:
  "fst (snd (session_is_active self w)) = self"
proof (cases "session_id self")
  case None
  then show ?thesis by (simp add: session_is_active_def)
next
  case (Some sid)
  then show ?thesis
    by (simp add: session_is_active_cached split: prod.splits sum.splits)
qed

lemma release_session_Inr_world:
  assumes "release_session self w = (Inr r, self', w')"
  shows "\<exists>sid d rs. session_id self = Some sid \<and> replies w = Reply d # rs \<and>
           w' = w\<lparr>trace := trace w @ [Sent (destroy_request self sid)] @ joins self,
                   replies := rs\<rparr>"
proof -
  from release_session_Inr [OF assms] obtain sid where sid: "session_id self = Some sid"
    by auto
  let ?rq = "destroy_request self sid"
  from assms sid obtain resp w1 where
    put: "requests_send ?rq w = (Inr resp, w1)" and
    stop: "stop_heartbeat (self\<lparr>session_id := None\<rparr>) w1 = (self', w')"
    by (auto simp: release_session_def endpoint_two requests_put_def destroy_request_def
                   requests_timeout_def
             split: prod.splits sum.splits)
  from put obtain rs where "replies w = Reply resp # rs"
    "w1 = w\<lparr>trace := trace w @ [Sent ?rq], replies := rs\<rparr>"
    by (auto dest: requests_send_Inr)
  with stop sid show ?thesis
    by (auto simp: stop_heartbeat_eq)
qed

section \<open>Construction\<close>

lemma init_default_base_path:
  "init ''http://localhost'' 8500 (Some ''jobs/nightly'') (Some ''worker-1'') w = (Inr example_idle, w)"
  unfolding init_def example_idle_def str_int_def
  by (simp add: str_nat.simps digit_char_def)

text \<open>
  C8. Construction with the lock key or the lock value absent raises
  \<^verbatim>\<open>LockParameterException\<close>, and construction with both builds the instance with no
  session cached; in all three cases the world is returned as it was given: nothing
  was sent and no reply was consumed.
\<close>

theorem init_requires_key_and_value:
  "init h p None v w =
     (Inl (LockParameterException ''lock_key and lock_value are required parameters''), w) \<and>
   init h p k None w =
     (Inl (LockParameterException ''lock_key and lock_value are required parameters''), w) \<and>
   init h p (Some a) (Some b) w =
     (Inr \<lparr>consul_base_path = h @ '':'' @ str_int p, session_id = None, heartbeating = False,
           heartbeat_thread = None, lock_key = a, lock_value = b\<rparr>, w)"
  by (simp add: init_def split: option.splits)

section \<open>Releasing without a session\<close>

text \<open>
  C10. With no identifier cached, \<^verbatim>\<open>_release_session\<close> (and so \<^verbatim>\<open>__exit__\<close>) fails
  with the \<^verbatim>\<open>TypeError\<close> of joining \<^verbatim>\<open>None\<close> into the destroy endpoint, before any
  request is sent and with the instance unchanged; with an identifier cached, that
  error cannot be the outcome.
\<close>

theorem release_session_needs_session:
  "(session_id self = None \<longrightarrow>
      release_session self w = (Inl TypeError, self, w) \<and>
      exit self w = (Inl TypeError, self, w)) \<and>
   (session_id self \<noteq> None \<longrightarrow>
      fst (release_session self w) \<noteq> Inl TypeError \<and> fst (exit self w) \<noteq> Inl TypeError)"
proof (intro conjI impI)
  assume "session_id self = None"
  then show r: "release_session self w = (Inl TypeError, self, w)"
    by (simp add: release_session_def endpoint_none)
  then show "exit self w = (Inl TypeError, self, w)"
    by (simp add: exit_def)
next
  assume "session_id self \<noteq> None"
  then obtain sid where sid: "session_id self = Some sid" by auto
  show r: "fst (release_session self w) \<noteq> Inl TypeError"
    using sid
    by (auto simp: release_session_def endpoint_two requests_put_def
             split: prod.splits sum.splits dest: requests_send_Inl)
  then show "fst (exit self w) \<noteq> Inl TypeError"
    by (auto simp: exit_def split: prod.splits sum.splits)
qed

theorem release_session_needs_session_witness:
  "session_id example_idle = None \<and>
   release_session example_idle (service []) = (Inl TypeError, example_idle, service []) \<and>
   exit example_idle (service []) = (Inl TypeError, example_idle, service []) \<and>
   session_id example_held \<noteq> None \<and>
   fst (release_session example_held (service [])) \<noteq> Inl TypeError \<and>
   fst (exit example_held (service [])) \<noteq> Inl TypeError"
proof -
  have idle: "session_id example_idle = None"
    by (simp add: example_idle_def)
  have held: "session_id example_held \<noteq> None"
    by (simp add: example_held_def)
  from idle held
    release_session_needs_session [of example_idle "service []"]
    release_session_needs_session [of example_held "service []"]
  show ?thesis by simp
qed

section \<open>Failed acquisition\<close>

text \<open>
  C3. Whenever \<^verbatim>\<open>_lock\<close> raises \<^verbatim>\<open>LockAcquireException\<close>, on whichever path,
  \<^verbatim>\<open>_release_session\<close> has run to its end first: the destroy request for the cached
  identifier is in the trace, and the instance is idle (identifier \<open>None\<close>, heartbeat
  flag cleared, no thread handle).
\<close>

theorem lock_failure_releases_session:
  assumes "lock self w = (Inl (LockAcquireException m), self', w')"
  shows "self' = idle self \<and> session_id self' = None \<and> \<not> heartbeating self' \<and>
         heartbeat_thread self' = None \<and>
         (\<exists>sid. session_id self = Some sid \<and> Sent (destroy_request self sid) \<in> set (trace w'))"
proof -
  from lock_LockAcquireException [OF assms] obtain w1 r where
    "release_session self w1 = (Inr r, self', w')" by blast
  from release_session_Inr [OF this] show ?thesis
    by (auto simp: idle_def)
qed

theorem lock_failure_releases_session_witness:
  "fst (lock example_held
          (service [answer 200 ''false'' None,
                    answer 200 ''[..]'' (Some (JArr [[(''Session'', ''s2'')]])),
                    answer 200 ''true'' None])) =
     Inl (LockAcquireException ''Failed to acquire lock'') \<and>
   fst (snd (lock example_held
          (service [answer 200 ''false'' None,
                    answer 200 ''[..]'' (Some (JArr [[(''Session'', ''s2'')]])),
                    answer 200 ''true'' None]))) =
     example_idle \<and>
   fst (lock example_held
          (service [answer 200 ''true'' None, answer 404 [] None, answer 200 ''true'' None])) =
     Inl (LockAcquireException ''Could not get the lock key'') \<and>
   fst (snd (lock example_held
          (service [answer 200 ''true'' None, answer 404 [] None, answer 200 ''true'' None]))) =
     example_idle \<and>
   fst (lock example_held
          (service [answer 200 ''true'' None,
                    answer 200 ''[..]''
                      (Some (JArr [[(''Session'', ''s1'')], [(''Session'', ''s2'')]])),
                    answer 200 ''true'' None])) =
     Inl (LockAcquireException ''Failed to acquire lock'') \<and>
   fst (snd (lock example_held
          (service [answer 200 ''true'' None,
                    answer 200 ''[..]''
                      (Some (JArr [[(''Session'', ''s1'')], [(''Session'', ''s2'')]])),
                    answer 200 ''true'' None]))) =
     example_idle"
proof -
  let ?w1 = "service [answer 200 ''false'' None,
                      answer 200 ''[..]'' (Some (JArr [[(''Session'', ''s2'')]])),
                      answer 200 ''true'' None]"
  let ?w2 = "service [answer 200 ''true'' None, answer 404 [] None, answer 200 ''true'' None]"
  let ?w3 = "service [answer 200 ''true'' None,
                      answer 200 ''[..]''
                        (Some (JArr [[(''Session'', ''s1'')], [(''Session'', ''s2'')]])),
                      answer 200 ''true'' None]"
  have idle: "idle example_held = example_idle"
    by (simp add: idle_def example_held_def example_idle_def)
  have 1: "fst (lock example_held ?w1) = Inl (LockAcquireException ''Failed to acquire lock'')"
    by (simp add: lock_unfold requests_send_def service_def answer_def response_json_def
        release_session_def endpoint_def requests_put_def stop_heartbeat_def Let_def
        example_held_def example_idle_def)
  have 2: "fst (lock example_held ?w2) = Inl (LockAcquireException ''Could not get the lock key'')"
    by (simp add: lock_unfold requests_send_def service_def answer_def response_json_def
        release_session_def endpoint_def requests_put_def stop_heartbeat_def Let_def
        example_held_def example_idle_def)
  have 3: "fst (lock example_held ?w3) = Inl (LockAcquireException ''Failed to acquire lock'')"
    by (simp add: lock_unfold requests_send_def service_def answer_def response_json_def
        release_session_def endpoint_def requests_put_def stop_heartbeat_def Let_def
        example_held_def example_idle_def)
  from 1 lock_failure_releases_session
           [of example_held ?w1 "''Failed to acquire lock''"
               "fst (snd (lock example_held ?w1))" "snd (snd (lock example_held ?w1))"]
  have r1: "fst (snd (lock example_held ?w1)) = example_idle"
    by (cases "lock example_held ?w1") (simp add: idle)
  from 2 lock_failure_releases_session
           [of example_held ?w2 "''Could not get the lock key''"
               "fst (snd (lock example_held ?w2))" "snd (snd (lock example_held ?w2))"]
  have r2: "fst (snd (lock example_held ?w2)) = example_idle"
    by (cases "lock example_held ?w2") (simp add: idle)
  from 3 lock_failure_releases_session
           [of example_held ?w3 "''Failed to acquire lock''"
               "fst (snd (lock example_held ?w3))" "snd (snd (lock example_held ?w3))"]
  have r3: "fst (snd (lock example_held ?w3)) = example_idle"
    by (cases "lock example_held ?w3") (simp add: idle)
  from 1 2 3 r1 r2 r3 show ?thesis by simp
qed

section \<open>What the re-read verifies\<close>

text \<open>
  C1. \<^verbatim>\<open>_lock\<close> is to succeed only when the re-read confirms an entry bound to the
  cached identifier. Its loop rejects an entry bound to something else and asks for
  nothing more, so a re-read answered with status 200 and an empty array is accepted:
  on the run below \<^verbatim>\<open>_lock\<close> returns, the instance untouched and nothing released,
  although the re-read returned no entry at all. The comment above the re-read says
  \<^verbatim>\<open>Verify we actually got the lock\<close>, and a re-read answered with another status
  releases the session and raises.
\<close>

theorem lock_accepts_empty_reread:
  "lock example_held (service [answer 200 ''true'' None, answer 200 ''[]'' (Some (JArr []))]) =
     (Inr (), example_held,
      \<lparr>replies = [],
       trace = [Sent (acquire_request example_held), Sent (read_request example_held)],
       spawned = 0\<rparr>) \<and>
   json_iter (JArr []) = Inr []"
  by (simp add: lock_unfold requests_send_def service_def answer_def response_json_def)

section \<open>Recursion of the session controller\<close>

text \<open>
  C9. Two frames are enough for every call of \<^verbatim>\<open>_acquire_session\<close>, whatever the
  instance and whatever the service answers: the bounded function returns what the
  unbounded one returns, which is total. With no identifier cached one frame is enough:
  the creation branch does not call back. So the method calls itself at most once, and
  only with the identifier cleared.
\<close>

theorem acquire_session_recursion_depth:
  "acquire_session_bounded (Suc (Suc depth)) self w = Some (acquire_session self w) \<and>
   acquire_session_bounded (Suc depth) (self\<lparr>session_id := None\<rparr>) w =
     Some (acquire_session (self\<lparr>session_id := None\<rparr>) w)"
proof
  show "acquire_session_bounded (Suc (Suc depth)) self w = Some (acquire_session self w)"
  proof (cases "session_id self")
    case None
    then show ?thesis by (rule acquire_session_bounded_fresh)
  next
    case (Some sid)
    then show ?thesis by (rule acquire_session_bounded_cached)
  qed
  show "acquire_session_bounded (Suc depth) (self\<lparr>session_id := None\<rparr>) w =
     Some (acquire_session (self\<lparr>session_id := None\<rparr>) w)"
    by (rule acquire_session_bounded_fresh) simp
qed

text \<open>The bound is reached: a cached session that the service reports gone needs the
  second frame.\<close>

lemma acquire_session_needs_two_frames:
  "acquire_session_bounded 1 example_held (service [answer 404 [] None]) = None"
  by (simp add: example_held_def example_idle_def service_def answer_def endpoint_def
        requests_get_def requests_send_def)

section \<open>A stale cached session\<close>

text \<open>
  C5. With an identifier cached, when the info query is answered with a status other
  than 200, or with status 200 and entries that all carry an \<^verbatim>\<open>ID\<close> different from the
  cached one, \<^verbatim>\<open>_acquire_session\<close> is its own call on the instance with the identifier
  cleared. That call takes the creation branch: the create request is the next request
  sent after the info request, and at the end the cached identifier is the newly created
  one, with the heartbeat running, or \<open>None\<close> when creation failed.
\<close>

theorem acquire_session_recreates_stale_session:
  "session_id self = Some sid \<and> replies w = Reply r # rs \<and>
   (status_code r \<noteq> 200 \<or>
    (\<exists>body items. json_body r = Some body \<and> json_iter body = Inr items \<and>
       (\<forall>l \<in> set items. \<exists>i. getitem l ''ID'' = Inr i \<and> i \<noteq> sid))) \<longrightarrow>
   acquire_session self w =
     acquire_session (self\<lparr>session_id := None\<rparr>)
       (w\<lparr>trace := trace w @ [Sent (info_request self sid)], replies := rs\<rparr>) \<and>
   (\<exists>evs. trace (snd (snd (acquire_session self w))) =
            trace w @ [Sent (info_request self sid), Sent (create_request self)] @ evs) \<and>
   (case fst (acquire_session self w) of
      Inl e \<Rightarrow> session_id (fst (snd (acquire_session self w))) = None
    | Inr new \<Rightarrow> session_id (fst (snd (acquire_session self w))) = Some new \<and>
                heartbeating (fst (snd (acquire_session self w))))"
proof
  assume h: "session_id self = Some sid \<and> replies w = Reply r # rs \<and>
   (status_code r \<noteq> 200 \<or>
    (\<exists>body items. json_body r = Some body \<and> json_iter body = Inr items \<and>
       (\<forall>l \<in> set items. \<exists>i. getitem l ''ID'' = Inr i \<and> i \<noteq> sid)))"
  let ?w1 = "w\<lparr>trace := trace w @ [Sent (info_request self sid)], replies := rs\<rparr>"
  let ?cleared = "self\<lparr>session_id := None\<rparr>"
  from h have sid: "session_id self = Some sid" and w: "replies w = Reply r # rs" by auto
  have get: "requests_send (info_request self sid) w = (Inr r, ?w1)"
    using w by (rule requests_send_reply)
  have rec: "acquire_session self w = acquire_session ?cleared ?w1"
  proof (cases "status_code r \<noteq> 200")
    case True
    with get show ?thesis by (simp add: acquire_session_cached [OF sid])
  next
    case False
    with h obtain body items where
      body: "json_body r = Some body" "json_iter body = Inr items" and
      absent: "\<forall>l \<in> set items. \<exists>i. getitem l ''ID'' = Inr i \<and> i \<noteq> sid"
      by auto
    from absent have "find_session sid items = Inr False"
      by (subst find_session_all) auto
    with get False body show ?thesis
      by (simp add: acquire_session_cached [OF sid] response_json_def)
  qed
  obtain res self' w' where out: "acquire_session ?cleared ?w1 = (res, self', w')"
    by (cases "acquire_session ?cleared ?w1")
  have "session_id ?cleared = None" by simp
  from acquire_session_fresh_outcome [OF this out] obtain evs where
    "trace w' = trace ?w1 @ [Sent (create_request self)] @ evs"
    "case res of Inl e \<Rightarrow> self' = ?cleared
     | Inr new \<Rightarrow> session_id self' = Some new \<and> heartbeating self'"
    by auto
  with rec out show "acquire_session self w = acquire_session ?cleared ?w1 \<and>
   (\<exists>evs. trace (snd (snd (acquire_session self w))) =
            trace w @ [Sent (info_request self sid), Sent (create_request self)] @ evs) \<and>
   (case fst (acquire_session self w) of
      Inl e \<Rightarrow> session_id (fst (snd (acquire_session self w))) = None
    | Inr new \<Rightarrow> session_id (fst (snd (acquire_session self w))) = Some new \<and>
                heartbeating (fst (snd (acquire_session self w))))"
    by (auto split: sum.splits)
qed

theorem acquire_session_recreates_stale_session_witness:
  "session_id example_held = Some ''s1'' \<and>
   fst (acquire_session example_held
          (service [answer 404 [] None,
                    answer 200 ''{..}'' (Some (JObj [(''ID'', ''s2'')]))])) = Inr ''s2'' \<and>
   session_id (fst (snd (acquire_session example_held
          (service [answer 404 [] None,
                    answer 200 ''{..}'' (Some (JObj [(''ID'', ''s2'')]))])))) = Some ''s2'' \<and>
   fst (acquire_session example_held
          (service [answer 200 ''[..]'' (Some (JArr [[(''ID'', ''s0'')]])),
                    answer 200 ''{..}'' (Some (JObj [(''ID'', ''s2'')]))])) = Inr ''s2'' \<and>
   session_id (fst (snd (acquire_session example_held
          (service [answer 200 ''[..]'' (Some (JArr [[(''ID'', ''s0'')]])),
                    answer 200 ''{..}'' (Some (JObj [(''ID'', ''s2'')]))])))) = Some ''s2'' \<and>
   fst (acquire_session example_held (service [answer 404 [] None])) = Inl RequestException \<and>
   session_id (fst (snd (acquire_session example_held (service [answer 404 [] None])))) = None"
proof -
  let ?new = "answer 200 ''{..}'' (Some (JObj [(''ID'', ''s2'')]))"
  let ?w1 = "service [answer 404 [] None, ?new]"
  let ?w2 = "service [answer 200 ''[..]'' (Some (JArr [[(''ID'', ''s0'')]])), ?new]"
  let ?w3 = "service [answer 404 [] None]"
  have sid: "session_id example_held = Some ''s1''"
    by (simp add: example_held_def)
  have cleared: "session_id (example_held\<lparr>session_id := None\<rparr>) = None"
    by simp
  have e1: "fst (acquire_session example_held ?w1) = Inr ''s2''"
    by (simp add: acquire_session_cached [OF sid] acquire_session_fresh [OF cleared]
          service_def answer_def requests_send_def response_json_def start_heartbeat_eq)
  have e2: "fst (acquire_session example_held ?w2) = Inr ''s2''"
    by (simp add: acquire_session_cached [OF sid] acquire_session_fresh [OF cleared]
          service_def answer_def requests_send_def response_json_def start_heartbeat_eq)
  have e3: "fst (acquire_session example_held ?w3) = Inl RequestException"
    by (simp add: acquire_session_cached [OF sid] acquire_session_fresh [OF cleared]
          service_def answer_def requests_send_def response_json_def start_heartbeat_eq)
  let ?r404 = "\<lparr>status_code = 404, content = [], json_body = None\<rparr>"
  let ?r200 = "\<lparr>status_code = 200, content = ''[..]'',
                 json_body = Some (JArr [[(''ID'', ''s0'')]])\<rparr>"
  have h1: "session_id example_held = Some ''s1'' \<and> replies ?w1 = Reply ?r404 # [?new] \<and>
     (status_code ?r404 \<noteq> 200 \<or>
      (\<exists>body items. json_body ?r404 = Some body \<and> json_iter body = Inr items \<and>
         (\<forall>l \<in> set items. \<exists>i. getitem l ''ID'' = Inr i \<and> i \<noteq> ''s1'')))"
    by (simp add: sid service_def answer_def)
  have h2: "session_id example_held = Some ''s1'' \<and> replies ?w2 = Reply ?r200 # [?new] \<and>
     (status_code ?r200 \<noteq> 200 \<or>
      (\<exists>body items. json_body ?r200 = Some body \<and> json_iter body = Inr items \<and>
         (\<forall>l \<in> set items. \<exists>i. getitem l ''ID'' = Inr i \<and> i \<noteq> ''s1'')))"
    by (simp add: sid service_def answer_def)
  have h3: "session_id example_held = Some ''s1'' \<and> replies ?w3 = Reply ?r404 # [] \<and>
     (status_code ?r404 \<noteq> 200 \<or>
      (\<exists>body items. json_body ?r404 = Some body \<and> json_iter body = Inr items \<and>
         (\<forall>l \<in> set items. \<exists>i. getitem l ''ID'' = Inr i \<and> i \<noteq> ''s1'')))"
    by (simp add: sid service_def answer_def)
  note t1 = acquire_session_recreates_stale_session
              [THEN mp, OF h1, THEN conjunct2, THEN conjunct2]
  note t2 = acquire_session_recreates_stale_session
              [THEN mp, OF h2, THEN conjunct2, THEN conjunct2]
  note t3 = acquire_session_recreates_stale_session
              [THEN mp, OF h3, THEN conjunct2, THEN conjunct2]
  from t1 have r1: "session_id (fst (snd (acquire_session example_held ?w1))) = Some ''s2''"
    by (simp only: e1 sum.case)
  from t2 have r2: "session_id (fst (snd (acquire_session example_held ?w2))) = Some ''s2''"
    by (simp only: e2 sum.case)
  from t3 have r3: "session_id (fst (snd (acquire_session example_held ?w3))) = None"
    by (simp only: e3 sum.case)
  from sid e1 e2 e3 r1 r2 r3 show ?thesis by simp
qed

section \<open>Heartbeat and cached session\<close>

text \<open>
  C4. At the end of every operation of the session controller the heartbeat flag is to be
  set exactly when an identifier is cached. \<^verbatim>\<open>_acquire_session\<close> has an exit where it
  is not: the cached session is reported gone, the identifier is cleared, the method
  calls itself, and the create request is not answered. The call ends there with no
  identifier cached, the flag still set and the thread of the old session kept.
  \<^verbatim>\<open>_release_session\<close>, the other place that clears the identifier, stops the
  heartbeat with it.
\<close>

theorem acquire_session_failed_recreation:
  "acquire_session example_held (service [answer 404 [] None, NoReply]) =
     (Inl RequestException, example_held\<lparr>session_id := None\<rparr>,
      \<lparr>replies = [],
       trace = [Sent (info_request example_held ''s1''), Sent (create_request example_held)],
       spawned = 0\<rparr>) \<and>
   session_id (example_held\<lparr>session_id := None\<rparr>) = None \<and>
   heartbeating (example_held\<lparr>session_id := None\<rparr>) \<and>
   heartbeat_thread (example_held\<lparr>session_id := None\<rparr>) = Some (Thread 0)"
proof -
  have sid: "session_id example_held = Some ''s1''"
    by (simp add: example_held_def)
  have cleared: "session_id (example_held\<lparr>session_id := None\<rparr>) = None"
    by simp
  have "acquire_session example_held (service [answer 404 [] None, NoReply]) =
          (Inl RequestException, example_held\<lparr>session_id := None\<rparr>,
           \<lparr>replies = [],
            trace = [Sent (info_request example_held ''s1''), Sent (create_request example_held)],
            spawned = 0\<rparr>)"
    by (simp add: acquire_session_cached [OF sid] acquire_session_fresh [OF cleared]
          service_def answer_def requests_send_def)
  then show ?thesis by (simp add: example_held_def)
qed

text \<open>
  On the exits by \<^verbatim>\<open>return\<close> the equivalence holds: of a constructed instance, after
  \<^verbatim>\<open>_release_session\<close>, and after \<^verbatim>\<open>_acquire_session\<close> when it held before; a fresh
  session is cached with the flag set and a new thread started.
\<close>

lemma session_controller_return:
  "(init h p (Some k) (Some v) w0 = (Inr self, w) \<longrightarrow>
      (heartbeating self \<longleftrightarrow> session_id self \<noteq> None)) \<and>
   (release_session self w = (Inr r, self', w') \<longrightarrow>
      session_id self' = None \<and> \<not> heartbeating self' \<and> heartbeat_thread self' = None) \<and>
   (acquire_session self w = (Inr sid, self', w') \<and>
    (heartbeating self \<longleftrightarrow> session_id self \<noteq> None) \<longrightarrow>
      (heartbeating self' \<longleftrightarrow> session_id self' \<noteq> None)) \<and>
   (acquire_session self w = (Inr sid, self', w') \<and> session_id self = None \<longrightarrow>
      session_id self' = Some sid \<and> heartbeating self' \<and>
      heartbeat_thread self' = Some (Thread (spawned w)) \<and>
      Started (Thread (spawned w)) \<in> set (trace w'))"
proof (intro conjI impI)
  assume "init h p (Some k) (Some v) w0 = (Inr self, w)"
  then show "heartbeating self \<longleftrightarrow> session_id self \<noteq> None"
    by (auto simp: init_def)
next
  assume "release_session self w = (Inr r, self', w')"
  from release_session_Inr [OF this]
  show "session_id self' = None" "\<not> heartbeating self'" "heartbeat_thread self' = None"
    by (auto simp: idle_def)
next
  assume "acquire_session self w = (Inr sid, self', w') \<and>
    (heartbeating self \<longleftrightarrow> session_id self \<noteq> None)"
  then have a: "acquire_session self w = (Inr sid, self', w')"
    and inv: "heartbeating self \<longleftrightarrow> session_id self \<noteq> None" by auto
  from acquire_session_Inr [OF a] inv
  show "heartbeating self' \<longleftrightarrow> session_id self' \<noteq> None" by auto
next
  assume h: "acquire_session self w = (Inr sid, self', w') \<and> session_id self = None"
  then have "acquire_session self w = (Inr sid, self', w')" "session_id self = None" by auto
  from acquire_session_fresh_Inr [OF this(2,1)]
  show "session_id self' = Some sid" "heartbeating self'"
    "heartbeat_thread self' = Some (Thread (spawned w))"
    "Started (Thread (spawned w)) \<in> set (trace w')"
    by auto
qed

section \<open>Checking the session\<close>

text \<open>
  C7. \<^verbatim>\<open>session_is_active\<close> never changes the instance, whatever its outcome. With no
  identifier cached it answers \<open>False\<close> without a request. With one cached it answers
  \<open>False\<close> when the info query has a status other than 200; and when the status is 200
  and every returned entry carries an \<^verbatim>\<open>ID\<close>, it answers whether one of them is the
  cached identifier: \<open>True\<close> when some entry's \<^verbatim>\<open>ID\<close> equals it, \<open>False\<close> when the
  result set omits it.
\<close>

theorem session_is_active_reads_only:
  "fst (snd (session_is_active self w)) = self \<and>
   (session_id self = None \<longrightarrow> session_is_active self w = (Inr False, self, w)) \<and>
   (session_id self = Some sid \<and> replies w = Reply r # rs \<and> status_code r \<noteq> 200 \<longrightarrow>
      session_is_active self w =
        (Inr False, self, w\<lparr>trace := trace w @ [Sent (info_request self sid)], replies := rs\<rparr>)) \<and>
   (session_id self = Some sid \<and> replies w = Reply r # rs \<and> status_code r = 200 \<and>
    json_body r = Some body \<and> json_iter body = Inr items \<and>
    (\<forall>l \<in> set items. \<exists>i. getitem l ''ID'' = Inr i) \<longrightarrow>
      session_is_active self w =
        (Inr (\<exists>l \<in> set items. getitem l ''ID'' = Inr sid), self,
         w\<lparr>trace := trace w @ [Sent (info_request self sid)], replies := rs\<rparr>))"
proof (intro conjI impI)
  show "fst (snd (session_is_active self w)) = self"
    by (rule session_is_active_frame)
next
  assume "session_id self = None"
  then show "session_is_active self w = (Inr False, self, w)"
    by (simp add: session_is_active_def)
next
  assume h: "session_id self = Some sid \<and> replies w = Reply r # rs \<and> status_code r \<noteq> 200"
  then have "requests_send (info_request self sid) w =
    (Inr r, w\<lparr>trace := trace w @ [Sent (info_request self sid)], replies := rs\<rparr>)"
    by (intro requests_send_reply) simp
  with h show "session_is_active self w =
        (Inr False, self, w\<lparr>trace := trace w @ [Sent (info_request self sid)], replies := rs\<rparr>)"
    by (simp add: session_is_active_cached)
next
  assume h: "session_id self = Some sid \<and> replies w = Reply r # rs \<and> status_code r = 200 \<and>
    json_body r = Some body \<and> json_iter body = Inr items \<and>
    (\<forall>l \<in> set items. \<exists>i. getitem l ''ID'' = Inr i)"
  then have get: "requests_send (info_request self sid) w =
    (Inr r, w\<lparr>trace := trace w @ [Sent (info_request self sid)], replies := rs\<rparr>)"
    by (intro requests_send_reply) simp
  from h have "find_session sid items = Inr (\<exists>l \<in> set items. getitem l ''ID'' = Inr sid)"
    by (intro find_session_all) simp
  with h get show "session_is_active self w =
        (Inr (\<exists>l \<in> set items. getitem l ''ID'' = Inr sid), self,
         w\<lparr>trace := trace w @ [Sent (info_request self sid)], replies := rs\<rparr>)"
    by (simp add: session_is_active_cached response_json_def)
qed

theorem session_is_active_reads_only_witness:
  "session_id example_idle = None \<and>
   session_is_active example_idle (service []) = (Inr False, example_idle, service []) \<and>
   session_id example_held = Some ''s1'' \<and>
   fst (session_is_active example_held (service [answer 404 [] None])) = Inr False \<and>
   fst (snd (session_is_active example_held (service [answer 404 [] None]))) = example_held \<and>
   fst (session_is_active example_held
          (service [answer 200 ''[..]'' (Some (JArr [[(''ID'', ''s0'')], [(''ID'', ''s1'')]]))])) =
     Inr True \<and>
   fst (session_is_active example_held
          (service [answer 200 ''[..]'' (Some (JArr [[(''ID'', ''s0'')]]))])) = Inr False \<and>
   fst (session_is_active example_held (service [answer 200 ''[]'' (Some (JArr []))])) =
     Inr False"
proof -
  let ?r404 = "\<lparr>status_code = 404, content = [], json_body = None\<rparr>"
  let ?b1 = "JArr [[(''ID'', ''s0'')], [(''ID'', ''s1'')]]"
  let ?b2 = "JArr [[(''ID'', ''s0'')]]"
  let ?b3 = "JArr []"
  let ?r1 = "\<lparr>status_code = 200, content = ''[..]'', json_body = Some ?b1\<rparr>"
  let ?r2 = "\<lparr>status_code = 200, content = ''[..]'', json_body = Some ?b2\<rparr>"
  let ?r3 = "\<lparr>status_code = 200, content = ''[]'', json_body = Some ?b3\<rparr>"
  have none: "session_id example_idle = None"
    by (simp add: example_idle_def)
  have sid: "session_id example_held = Some ''s1''"
    by (simp add: example_held_def)
  note t = session_is_active_reads_only
  from t [of example_idle "service []"] none
  have a: "session_is_active example_idle (service []) = (Inr False, example_idle, service [])"
    by simp
  have h404: "session_id example_held = Some ''s1'' \<and>
      replies (service [answer 404 [] None]) = Reply ?r404 # [] \<and> status_code ?r404 \<noteq> 200"
    by (simp add: sid service_def answer_def)
  from t [THEN conjunct2, THEN conjunct2, THEN conjunct1, THEN mp, OF h404]
  have b: "fst (session_is_active example_held (service [answer 404 [] None])) = Inr False"
    by simp
  have c: "fst (snd (session_is_active example_held (service [answer 404 [] None]))) = example_held"
    by (rule t [THEN conjunct1])
  have h1: "session_id example_held = Some ''s1'' \<and>
      replies (service [answer 200 ''[..]'' (Some ?b1)]) = Reply ?r1 # [] \<and>
      status_code ?r1 = 200 \<and> json_body ?r1 = Some ?b1 \<and>
      json_iter ?b1 = Inr [Entry [(''ID'', ''s0'')], Entry [(''ID'', ''s1'')]] \<and>
      (\<forall>l \<in> set [Entry [(''ID'', ''s0'')], Entry [(''ID'', ''s1'')]].
          \<exists>i. getitem l ''ID'' = Inr i)"
    by (simp add: sid service_def answer_def)
  have h2: "session_id example_held = Some ''s1'' \<and>
      replies (service [answer 200 ''[..]'' (Some ?b2)]) = Reply ?r2 # [] \<and>
      status_code ?r2 = 200 \<and> json_body ?r2 = Some ?b2 \<and>
      json_iter ?b2 = Inr [Entry [(''ID'', ''s0'')]] \<and>
      (\<forall>l \<in> set [Entry [(''ID'', ''s0'')]]. \<exists>i. getitem l ''ID'' = Inr i)"
    by (simp add: sid service_def answer_def)
  have h3: "session_id example_held = Some ''s1'' \<and>
      replies (service [answer 200 ''[]'' (Some ?b3)]) = Reply ?r3 # [] \<and>
      status_code ?r3 = 200 \<and> json_body ?r3 = Some ?b3 \<and>
      json_iter ?b3 = Inr [] \<and>
      (\<forall>l \<in> set []. \<exists>i. getitem l ''ID'' = Inr i)"
    by (simp add: sid service_def answer_def)
  from t [THEN conjunct2, THEN conjunct2, THEN conjunct2, THEN mp, OF h1]
  have d: "fst (session_is_active example_held (service [answer 200 ''[..]'' (Some ?b1)])) =
             Inr True"
    by simp
  from t [THEN conjunct2, THEN conjunct2, THEN conjunct2, THEN mp, OF h2]
  have e: "fst (session_is_active example_held (service [answer 200 ''[..]'' (Some ?b2)])) =
             Inr False"
    by simp
  from t [THEN conjunct2, THEN conjunct2, THEN conjunct2, THEN mp, OF h3]
  have f: "fst (session_is_active example_held (service [answer 200 ''[]'' (Some ?b3)])) =
             Inr False"
    by simp
  from none sid a b c d e f show ?thesis by simp
qed

section \<open>A refused write\<close>

text \<open>
  C2. A conditional write answered with the body \<^verbatim>\<open>false\<close> is to make \<^verbatim>\<open>__enter__\<close>
  fail with \<^verbatim>\<open>LockAcquireException\<close>, the session destroyed. \<^verbatim>\<open>_lock\<close> has the test,
  but it compares the \<^verbatim>\<open>bytes\<close> of the body with the \<^verbatim>\<open>str\<close> \<^verbatim>\<open>'false'\<close>, which is
  never true, so the refusal is not seen and the re-read alone decides. Two runs with the
  write answered \<^verbatim>\<open>false\<close>: when the re-read shows the key bound to the session,
  \<^verbatim>\<open>__enter__\<close> returns with the session cached and \<^verbatim>\<open>session_is_active\<close> answers
  \<open>True\<close>; when the re-read shows the key with no \<^verbatim>\<open>Session\<close>, \<^verbatim>\<open>__enter__\<close> ends with
  \<^verbatim>\<open>KeyError\<close>, the session still cached and the heartbeat running.
\<close>

theorem enter_ignores_refused_write:
  "enter example_idle
     (service [answer 200 ''{..}'' (Some (JObj [(''ID'', ''s1'')])),
               answer 200 ''false'' None,
               answer 200 ''[..]'' (Some (JArr [[(''Session'', ''s1'')]]))]) =
     (Inr (), example_held,
      \<lparr>replies = [],
       trace = [Sent (create_request example_idle), Started (Thread 0),
                Sent (acquire_request example_held), Sent (read_request example_held)],
       spawned = 1\<rparr>) \<and>
   session_is_active example_held
     (service [answer 200 ''[..]'' (Some (JArr [[(''ID'', ''s1'')]]))]) =
     (Inr True, example_held,
      \<lparr>replies = [], trace = [Sent (info_request example_held ''s1'')], spawned = 0\<rparr>) \<and>
   enter example_idle
     (service [answer 200 ''{..}'' (Some (JObj [(''ID'', ''s1'')])),
               answer 200 ''false'' None,
               answer 200 ''[..]'' (Some (JArr [[(''Key'', ''jobs/nightly'')]]))]) =
     (Inl (KeyError ''Session''), example_held,
      \<lparr>replies = [],
       trace = [Sent (create_request example_idle), Started (Thread 0),
                Sent (acquire_request example_held), Sent (read_request example_held)],
       spawned = 1\<rparr>)"
proof -
  let ?create = "answer 200 ''{..}'' (Some (JObj [(''ID'', ''s1'')]))"
  let ?bound = "answer 200 ''[..]'' (Some (JArr [[(''Session'', ''s1'')]]))"
  let ?bare = "answer 200 ''[..]'' (Some (JArr [[(''Key'', ''jobs/nightly'')]]))"
  have none: "session_id example_idle = None"
    by (simp add: example_idle_def)
  have sid: "session_id example_held = Some ''s1''"
    by (simp add: example_held_def)
  have thread: "heartbeat_thread example_idle = None"
    by (simp add: example_idle_def)
  have acq: "acquire_session example_idle (service [?create, answer 200 ''false'' None, r]) =
     (Inr ''s1'', example_held,
      \<lparr>replies = [answer 200 ''false'' None, r],
       trace = [Sent (create_request example_idle), Started (Thread 0)], spawned = 1\<rparr>)" for r
    by (simp add: acquire_session_fresh [OF none] service_def answer_def requests_send_def
          response_json_def start_heartbeat_eq joins_def example_held_def thread)
  have 1: "enter example_idle (service [?create, answer 200 ''false'' None, ?bound]) =
     (Inr (), example_held,
      \<lparr>replies = [],
       trace = [Sent (create_request example_idle), Started (Thread 0),
                Sent (acquire_request example_held), Sent (read_request example_held)],
       spawned = 1\<rparr>)"
    unfolding enter_def acq
    by (simp add: lock_unfold requests_send_def answer_def response_json_def sid)
  have 2: "session_is_active example_held
     (service [answer 200 ''[..]'' (Some (JArr [[(''ID'', ''s1'')]]))]) =
     (Inr True, example_held,
      \<lparr>replies = [], trace = [Sent (info_request example_held ''s1'')], spawned = 0\<rparr>)"
    by (simp add: session_is_active_cached [OF sid] service_def answer_def requests_send_def
          response_json_def)
  have 3: "enter example_idle (service [?create, answer 200 ''false'' None, ?bare]) =
     (Inl (KeyError ''Session''), example_held,
      \<lparr>replies = [],
       trace = [Sent (create_request example_idle), Started (Thread 0),
                Sent (acquire_request example_held), Sent (read_request example_held)],
       spawned = 1\<rparr>)"
    unfolding enter_def acq
    by (simp add: lock_unfold requests_send_def answer_def response_json_def sid)
  from 1 2 3 show ?thesis by simp
qed

section \<open>One cycle of the guard\<close>

text \<open>
  C6. For an instance constructed with a key and a value, \<^verbatim>\<open>__enter__\<close> that returns
  followed by \<^verbatim>\<open>__exit__\<close> that returns leaves the instance as it was constructed:
  no identifier cached, heartbeat flag cleared, no thread handle. In between a session
  was held with the heartbeat running, and \<^verbatim>\<open>__exit__\<close> sent the destroy request for
  that session and joined the heartbeat thread.
\<close>

theorem enter_exit_returns_to_idle:
  "init h p (Some k) (Some v) w0 = (Inr self0, w0') \<and>
   enter self0 w = (Inr (), self1, w1) \<and> exit self1 w1 = (Inr (), self2, w2) \<longrightarrow>
   self2 = self0 \<and> session_id self2 = None \<and> \<not> heartbeating self2 \<and>
   heartbeat_thread self2 = None \<and>
   (\<exists>sid. session_id self1 = Some sid \<and> heartbeating self1 \<and>
          heartbeat_thread self1 = Some (Thread (spawned w)) \<and>
          trace w2 = trace w1 @ [Sent (destroy_request self0 sid),
                                 Joined (Thread (spawned w)) join_timeout])"
proof
  assume h: "init h p (Some k) (Some v) w0 = (Inr self0, w0') \<and>
   enter self0 w = (Inr (), self1, w1) \<and> exit self1 w1 = (Inr (), self2, w2)"
  then have self0: "session_id self0 = None" "\<not> heartbeating self0" "heartbeat_thread self0 = None"
    by (auto simp: init_def)
  from h obtain sid wa where
    acq: "acquire_session self0 w = (Inr sid, self1, wa)" and
    lk: "lock self1 wa = (Inr (), self1, w1)"
    by (auto simp: enter_def lock_Inr_iff split: prod.splits sum.splits)
  from acquire_session_fresh_Inr [OF self0(1) acq]
  have self1: "self1 = self0\<lparr>session_id := Some sid, heartbeating := True,
                             heartbeat_thread := Some (Thread (spawned w))\<rparr>"
    by auto
  from h obtain r where rel: "release_session self1 w1 = (Inr r, self2, w2)"
    by (auto simp: exit_def split: prod.splits sum.splits)
  from release_session_Inr [OF rel] have self2: "self2 = idle self1" by auto
  from release_session_Inr_world [OF rel] self1
  have tr: "trace w2 = trace w1 @ [Sent (destroy_request self1 sid)] @ joins self1"
    by auto
  have "self2 = self0"
    using self2 self1 self0 by (simp add: idle_def)
  moreover have "destroy_request self1 sid = destroy_request self0 sid"
    using self1 by (simp add: destroy_request_def)
  moreover have "joins self1 = [Joined (Thread (spawned w)) join_timeout]"
    using self1 by (simp add: joins_def)
  ultimately show "self2 = self0 \<and> session_id self2 = None \<and> \<not> heartbeating self2 \<and>
   heartbeat_thread self2 = None \<and>
   (\<exists>sid. session_id self1 = Some sid \<and> heartbeating self1 \<and>
          heartbeat_thread self1 = Some (Thread (spawned w)) \<and>
          trace w2 = trace w1 @ [Sent (destroy_request self0 sid),
                                 Joined (Thread (spawned w)) join_timeout])"
    using self0 self1 tr by simp
qed

theorem enter_exit_returns_to_idle_witness:
  "init ''http://localhost'' 8500 (Some ''jobs/nightly'') (Some ''worker-1'') (service []) =
     (Inr example_idle, service []) \<and>
   enter example_idle
     (service [answer 200 ''{..}'' (Some (JObj [(''ID'', ''s1'')])),
               answer 200 ''true'' None,
               answer 200 ''[..]'' (Some (JArr [[(''Session'', ''s1'')]])),
               answer 200 ''true'' None]) =
     (Inr (), example_held,
      \<lparr>replies = [answer 200 ''true'' None],
       trace = [Sent (create_request example_idle), Started (Thread 0),
                Sent (acquire_request example_held), Sent (read_request example_held)],
       spawned = 1\<rparr>) \<and>
   exit example_held
      \<lparr>replies = [answer 200 ''true'' None],
       trace = [Sent (create_request example_idle), Started (Thread 0),
                Sent (acquire_request example_held), Sent (read_request example_held)],
       spawned = 1\<rparr> =
     (Inr (), example_idle,
      \<lparr>replies = [],
       trace = [Sent (create_request example_idle), Started (Thread 0),
                Sent (acquire_request example_held), Sent (read_request example_held),
                Sent (destroy_request example_idle ''s1''), Joined (Thread 0) join_timeout],
       spawned = 1\<rparr>) \<and>
   session_id example_idle = None \<and> \<not> heartbeating example_idle \<and>
   heartbeat_thread example_idle = None"
proof -
  let ?w = "service [answer 200 ''{..}'' (Some (JObj [(''ID'', ''s1'')])),
               answer 200 ''true'' None,
               answer 200 ''[..]'' (Some (JArr [[(''Session'', ''s1'')]])),
               answer 200 ''true'' None]"
  let ?w1 = "\<lparr>replies = [answer 200 ''true'' None],
       trace = [Sent (create_request example_idle), Started (Thread 0),
                Sent (acquire_request example_held), Sent (read_request example_held)],
       spawned = 1\<rparr>"
  let ?w2 = "\<lparr>replies = [],
       trace = [Sent (create_request example_idle), Started (Thread 0),
                Sent (acquire_request example_held), Sent (read_request example_held),
                Sent (destroy_request example_idle ''s1''), Joined (Thread 0) join_timeout],
       spawned = 1\<rparr>"
  have none: "session_id example_idle = None"
    by (simp add: example_idle_def)
  have sid: "session_id example_held = Some ''s1''"
    by (simp add: example_held_def)
  have heartbeat_idle: "heartbeat_thread example_idle = None"
    by (simp add: example_idle_def)
  have e0: "init ''http://localhost'' 8500 (Some ''jobs/nightly'') (Some ''worker-1'') (service []) =
              (Inr example_idle, service [])"
    by (rule init_default_base_path)
  have acq: "acquire_session example_idle ?w =
               (Inr ''s1'', example_held,
                \<lparr>replies = [answer 200 ''true'' None,
                             answer 200 ''[..]'' (Some (JArr [[(''Session'', ''s1'')]])),
                             answer 200 ''true'' None],
                 trace = [Sent (create_request example_idle), Started (Thread 0)],
                 spawned = 1\<rparr>)"
    by (simp add: acquire_session_fresh [OF none] service_def answer_def requests_send_def
          response_json_def start_heartbeat_eq joins_def example_held_def
          heartbeat_idle)
  have e1: "enter example_idle ?w = (Inr (), example_held, ?w1)"
    unfolding enter_def acq
    by (simp add: lock_unfold requests_send_def answer_def response_json_def sid)
  have e2: "exit example_held ?w1 = (Inr (), example_idle, ?w2)"
    by (simp add: exit_def release_session_def endpoint_two requests_put_def
          requests_send_def answer_def stop_heartbeat_eq joins_def sid destroy_request_def
          requests_timeout_def example_held_def example_idle_def)
  from enter_exit_returns_to_idle [THEN mp, OF conjI [OF e0 conjI [OF e1 e2]]]
  have "session_id example_idle = None \<and> \<not> heartbeating example_idle \<and>
        heartbeat_thread example_idle = None"
    by simp
  with e0 e1 e2 show ?thesis by simp
qed

section \<open>When the destroy request is not answered\<close>

text \<open>
  The module catches no exception, so a request that \<^verbatim>\<open>requests\<close> gives up on ends the
  operation where it stands. A failed re-read whose destroy request is not answered:
  \<^verbatim>\<open>__enter__\<close> ends with the transport error, the session still cached and the
  heartbeat running.
\<close>

lemma enter_destroy_unanswered:
  "enter example_idle
     (service [answer 200 ''{..}'' (Some (JObj [(''ID'', ''s1'')])), answer 200 ''true'' None,
               answer 404 [] None, NoReply]) =
     (Inl RequestException, example_held,
      \<lparr>replies = [],
       trace = [Sent (create_request example_idle), Started (Thread 0),
                Sent (acquire_request example_held), Sent (read_request example_held),
                Sent (destroy_request example_held ''s1'')],
       spawned = 1\<rparr>)"
proof -
  have none: "session_id example_idle = None"
    by (simp add: example_idle_def)
  have sid: "session_id example_held = Some ''s1''"
    by (simp add: example_held_def)
  have thread: "heartbeat_thread example_idle = None"
    by (simp add: example_idle_def)
  have acq: "acquire_session example_idle
     (service [answer 200 ''{..}'' (Some (JObj [(''ID'', ''s1'')])), answer 200 ''true'' None,
               answer 404 [] None, NoReply]) =
     (Inr ''s1'', example_held,
      \<lparr>replies = [answer 200 ''true'' None, answer 404 [] None, NoReply],
       trace = [Sent (create_request example_idle), Started (Thread 0)], spawned = 1\<rparr>)"
    by (simp add: acquire_session_fresh [OF none] service_def answer_def requests_send_def
          response_json_def start_heartbeat_eq joins_def example_held_def thread)
  show ?thesis
    unfolding enter_def acq
    by (simp add: lock_unfold requests_send_def answer_def release_session_def endpoint_two
          requests_put_def destroy_request_def requests_timeout_def sid)
qed

end
